theory Spec2Isabelle
  imports Complex_Main "HOL-Library.List_Lexorder" "HOL-Library.Char_ord" "HOL-Library.Multiset"
begin

section \<open>Gaps page: gap categories (GapsPage in the gaps page source)\<close>

text \<open>
  The TypeScript interfaces \<^verbatim>\<open>GapResponse\<close>, \<^verbatim>\<open>Gap\<close> and \<^verbatim>\<open>GapAnalysis\<close>.
  Nullable strings are \<open>string option\<close>. Field names that occur in several interfaces of
  the frontend carry the interface as a prefix where the record would otherwise clash.
\<close>

record GapResponse =
  source :: string
  response_brand_mentioned :: bool
  brand_position :: "string option"
  context_type :: "string option"
  competitors_found :: "string option"
  response_preview :: "string option"
  full_response :: "string option"

record Gap =
  query :: string
  category :: string
  brand_mentioned :: bool
  has_competitors :: bool
  competitors :: "string list"
  mentioned_sources :: "string list"
  missing_sources :: "string list"
  responses :: "GapResponse list"

record GapAnalysis =
  gap_query_run_id :: int
  gap_total_queries :: int
  gaps :: "Gap list"
  gap_branded_count :: int
  gap_non_branded_count :: int
  gap_filter_applied :: string

text \<open>
  The return type of \<^verbatim>\<open>getCategoryType\<close> is the union of the four string literals
  \<^verbatim>\<open>'win' | 'critical' | 'competitive' | 'blue_ocean'\<close>.
\<close>

datatype CategoryType = Win | Critical | Competitive | Blue_ocean

text \<open>
  \<^verbatim>\<open>
  const getCategoryType = (gap: Gap) => {
    if (gap.brand_mentioned && !gap.has_competitors) return 'win';
    if (!gap.brand_mentioned && gap.has_competitors) return 'critical';
    if (gap.brand_mentioned && gap.has_competitors) return 'competitive';
    return 'blue_ocean';
  };
  \<close>
\<close>

definition getCategoryType :: "Gap \<Rightarrow> CategoryType" where
  "getCategoryType gap =
     (if brand_mentioned gap \<and> \<not> has_competitors gap then Win
      else if \<not> brand_mentioned gap \<and> has_competitors gap then Critical
      else if brand_mentioned gap \<and> has_competitors gap then Competitive
      else Blue_ocean)"

text \<open>
  The \<^verbatim>\<open>label\<close> field of \<^verbatim>\<open>getCategoryConfig\<close>: the name under which the page shows
  each category (\<^verbatim>\<open>'win'\<close> is the exclusive win, \<^verbatim>\<open>'critical'\<close> the critical gap; the
  \<^verbatim>\<open>default\<close> branch of the switch is the blue ocean).
\<close>

fun getCategoryConfig_label :: "CategoryType \<Rightarrow> string" where
  "getCategoryConfig_label Win = ''Exclusive Win''"
| "getCategoryConfig_label Critical = ''Critical Gap''"
| "getCategoryConfig_label Competitive = ''Competitive''"
| "getCategoryConfig_label Blue_ocean = ''Blue Ocean''"

text \<open>
  The four counters of the page. \<^verbatim>\<open>analysis\<close> is \<^verbatim>\<open>GapAnalysis | null\<close>;
  \<^verbatim>\<open>analysis?.gaps.filter(p).length || 0\<close> is 0 when \<^verbatim>\<open>analysis\<close> is null.
\<close>

record GapStats =
  wins :: nat
  critical :: nat
  competitive :: nat
  blue_ocean :: nat

definition stats :: "GapAnalysis option \<Rightarrow> GapStats" where
  "stats analysis =
     \<lparr> wins = (case analysis of None \<Rightarrow> 0
               | Some a \<Rightarrow> length (filter (\<lambda>g. getCategoryType g = Win) (gaps a))),
       critical = (case analysis of None \<Rightarrow> 0
               | Some a \<Rightarrow> length (filter (\<lambda>g. getCategoryType g = Critical) (gaps a))),
       competitive = (case analysis of None \<Rightarrow> 0
               | Some a \<Rightarrow> length (filter (\<lambda>g. getCategoryType g = Competitive) (gaps a))),
       blue_ocean = (case analysis of None \<Rightarrow> 0
               | Some a \<Rightarrow> length (filter (\<lambda>g. getCategoryType g = Blue_ocean) (gaps a))) \<rparr>"

text \<open>
  The category filter of the page is the state
  \<^verbatim>\<open>useState<'all' | 'critical' | 'wins' | 'blue_ocean'>('all')\<close>.
\<close>

datatype GapFilter = Filter_all | Filter_critical | Filter_wins | Filter_blue_ocean

definition keepGap :: "GapFilter \<Rightarrow> Gap \<Rightarrow> bool" where
  "keepGap f gap =
     (if f = Filter_all then True
      else if f = Filter_critical then getCategoryType gap = Critical
      else if f = Filter_wins then getCategoryType gap = Win
      else if f = Filter_blue_ocean then getCategoryType gap = Blue_ocean
      else True)"

definition filteredGaps :: "GapFilter \<Rightarrow> GapAnalysis option \<Rightarrow> Gap list" where
  "filteredGaps f analysis =
     (case analysis of None \<Rightarrow> [] | Some a \<Rightarrow> filter (keepGap f) (gaps a))"

definition stats_total :: "GapStats \<Rightarrow> nat" where
  "stats_total s = wins s + critical s + competitive s + blue_ocean s"

definition example_gap :: "bool \<Rightarrow> bool \<Rightarrow> Gap" where
  "example_gap b c =
     \<lparr> query = ''best widgets'', category = '''', brand_mentioned = b, has_competitors = c,
       competitors = [], mentioned_sources = [], missing_sources = [], responses = [] \<rparr>"

definition example_gap_analysis :: GapAnalysis where
  "example_gap_analysis =
     \<lparr> gap_query_run_id = 1, gap_total_queries = 3,
       gaps = [example_gap True False, example_gap False True, example_gap False True],
       gap_branded_count = 0, gap_non_branded_count = 3, gap_filter_applied = ''all'' \<rparr>"

section \<open>JavaScript numbers\<close>

text \<open>
  A JavaScript \<^verbatim>\<open>number\<close> is a finite value, \<^verbatim>\<open>NaN\<close>, \<^verbatim>\<open>Infinity\<close> or \<^verbatim>\<open>-Infinity\<close>.
  Finite values are kept exact, as rationals: the rounding of the double format is left
  out, the special values are not. The counters of a run arrive as JSON integers, so the
  operands of a division are \<open>int\<close>.
\<close>

datatype js_number = Finite rat | NaN | PosInfinity | NegInfinity

text \<open>The operator \<^verbatim>\<open>a / b\<close> on integer operands: no exception, \<^verbatim>\<open>0 / 0\<close> is \<^verbatim>\<open>NaN\<close>.\<close>

definition js_divide :: "int \<Rightarrow> int \<Rightarrow> js_number" where
  "js_divide a b =
     (if b = 0 then (if a = 0 then NaN else if 0 < a then PosInfinity else NegInfinity)
      else Finite (of_int a / of_int b))"

text \<open>The operator \<^verbatim>\<open>x * 100\<close>.\<close>

fun js_times_100 :: "js_number \<Rightarrow> js_number" where
  "js_times_100 (Finite x) = Finite (x * 100)"
| "js_times_100 NaN = NaN"
| "js_times_100 PosInfinity = PosInfinity"
| "js_times_100 NegInfinity = NegInfinity"

section \<open>Generator page: progress of a run (GeneratorPage)\<close>

text \<open>
  The object that \<^verbatim>\<open>getQueryRunStatus\<close> resolves to, as far as the page reads it, and the
  \<^verbatim>\<open>QueryRun\<close> interface of the page.
\<close>

record QueryRunStatus =
  status_of :: string
  status_total_queries :: int
  status_completed_queries :: int

record QueryRun =
  run_id :: int
  run_name :: "string option"
  run_status :: string
  total_queries :: int
  completed_queries :: int
  created_at :: string

text \<open>
  The argument of \<^verbatim>\<open>setProgress\<close> in the polling effect:
  \<^verbatim>\<open>(status.completed_queries / status.total_queries) * 100\<close>.
\<close>

definition poll_progress :: "QueryRunStatus \<Rightarrow> js_number" where
  "poll_progress st =
     js_times_100 (js_divide (status_completed_queries st) (status_total_queries st))"

text \<open>
  The width of the progress bar of a row of the table of recent runs:
  \<^verbatim>\<open>(run.completed_queries / run.total_queries) * 100\<close>.
\<close>

definition run_progress_fraction :: "QueryRun \<Rightarrow> js_number" where
  "run_progress_fraction run = js_divide (completed_queries run) (total_queries run)"

definition run_progress_width :: "QueryRun \<Rightarrow> js_number" where
  "run_progress_width run = js_times_100 (run_progress_fraction run)"

text \<open>
  A guarded rate of the same frontend, on the admin costs page:
  \<^verbatim>\<open>const percentage = totalCost > 0 ? (provider.total_cost / totalCost) * 100 : 0;\<close>
  Costs are finite numbers.
\<close>

definition cost_percentage :: "rat \<Rightarrow> rat \<Rightarrow> js_number" where
  "cost_percentage total_cost totalCost =
     (if totalCost > 0 then Finite (total_cost / totalCost * 100) else Finite 0)"

section \<open>Competitors page: the leaderboard (CompetitorsPage)\<close>

text \<open>
  The interfaces \<^verbatim>\<open>CompetitorData\<close> and \<^verbatim>\<open>CompetitorAnalysis\<close>. An optional number is a
  \<open>rat option\<close>; rates arrive as JSON numbers, so they are finite.
\<close>

record CompetitorData =
  comp_name :: string
  is_brand :: bool
  mention_count :: int
  mention_rate :: rat
  first_third_rate :: "rat option"
  positive_rate :: "rat option"
  unique_queries :: "int option"

record WinLoss =
  win_loss_wins :: int
  win_loss_ties :: int
  win_loss_losses :: int
  win_loss_neither :: int

record CompetitorAnalysis =
  comp_query_run_id :: int
  total_responses :: int
  comparison :: "CompetitorData list"
  win_loss :: WinLoss
  comp_branded_count :: int
  comp_non_branded_count :: int
  comp_filter_applied :: string

text \<open>
  \<^verbatim>\<open>Array.prototype.sort\<close> with a comparator is a stable sort: \<^verbatim>\<open>a\<close> comes before
  \<^verbatim>\<open>b\<close> when the comparator is negative on \<^verbatim>\<open>(a, b)\<close>, and elements that compare equal
  keep their order. For a consistent comparator that fixes the result, whatever
  algorithm the engine runs; the model is the stable insertion sort.
\<close>

fun js_insert :: "('a \<Rightarrow> 'a \<Rightarrow> rat) \<Rightarrow> 'a \<Rightarrow> 'a list \<Rightarrow> 'a list" where
  "js_insert cmp x [] = [x]"
| "js_insert cmp x (y # ys) =
     (if cmp x y \<le> 0 then x # y # ys else y # js_insert cmp x ys)"

definition js_sort :: "('a \<Rightarrow> 'a \<Rightarrow> rat) \<Rightarrow> 'a list \<Rightarrow> 'a list" where
  "js_sort cmp xs = foldr (js_insert cmp) xs []"

text \<open>The comparator of the page: \<^verbatim>\<open>(a, b) => b.mention_rate - a.mention_rate\<close>.\<close>

definition compare_rate :: "CompetitorData \<Rightarrow> CompetitorData \<Rightarrow> rat" where
  "compare_rate a b = mention_rate b - mention_rate a"

text \<open>
  \<^verbatim>\<open>const sortedComparison =
      analysis?.comparison.sort((a, b) => b.mention_rate - a.mention_rate) || [];\<close>
\<close>

definition sortedComparison :: "CompetitorAnalysis option \<Rightarrow> CompetitorData list" where
  "sortedComparison analysis =
     (case analysis of None \<Rightarrow> [] | Some a \<Rightarrow> js_sort compare_rate (comparison a))"

text \<open>
  The order of the leaderboard in the words of the specification: descending mention
  rate, ties broken by descending mention count, then alphabetically by name.
  \<open>leaderboard_before a b\<close>: \<open>a\<close> may stand before \<open>b\<close>.
\<close>

definition leaderboard_before :: "CompetitorData \<Rightarrow> CompetitorData \<Rightarrow> bool" where
  "leaderboard_before a b =
     (mention_rate a > mention_rate b
      \<or> (mention_rate a = mention_rate b
          \<and> (mention_count a > mention_count b
              \<or> (mention_count a = mention_count b \<and> comp_name a \<le> comp_name b))))"

definition entity :: "string \<Rightarrow> bool \<Rightarrow> int \<Rightarrow> rat \<Rightarrow> CompetitorData" where
  "entity n b c r =
     \<lparr> comp_name = n, is_brand = b, mention_count = c, mention_rate = r,
       first_third_rate = None, positive_rate = None, unique_queries = None \<rparr>"

definition example_comparison :: "CompetitorData list \<Rightarrow> CompetitorAnalysis" where
  "example_comparison cs =
     \<lparr> comp_query_run_id = 1, total_responses = 10, comparison = cs,
       win_loss = \<lparr> win_loss_wins = 0, win_loss_ties = 0, win_loss_losses = 0,
                    win_loss_neither = 0 \<rparr>,
       comp_branded_count = 0, comp_non_branded_count = 0, comp_filter_applied = ''all'' \<rparr>"

section \<open>Query runs: the progress contract of the orchestrator\<close>

text \<open>
  Modelled from the spec: the Query Run Orchestrator (specification, sections 3 and 4.1)
  is backend code of this repository that is not among the frontend sources. A run has
  the status pending, running, completed or failed, the number of calls
  \<^verbatim>\<open>total_queries\<close>, the number of calls with a terminal outcome \<^verbatim>\<open>completed_queries\<close>,
  and the number of those that succeeded. A call is one query sent to one provider; the
  calls of the run whose outcome is not yet recorded are kept with the run.
\<close>

datatype RunState = Pending | Running | Completed | Failed

type_synonym provider_call = "string \<times> string"

record RunRow =
  row_status :: RunState
  row_total_queries :: nat
  row_completed_queries :: nat
  row_succeeded :: nat
  row_open_calls :: "provider_call list"



text \<open>
  Modelled from the spec: the two mutations of a run by the orchestrator, absent from
  the sources. The run "then transitions to running and begins dispatch"; "after every
  terminal call outcome, completed_queries increments atomically and, once it equals
  total_queries, status becomes completed if at least one Response succeeded, else
  failed". Calls are made only while the run is running, and "every call made produces
  exactly one terminal Response row": an outcome is recorded only for a call that is
  still open, and closes it.
\<close>

datatype RunEvent = Begin_dispatch | Call_outcome provider_call bool

fun run_step :: "RunRow \<Rightarrow> RunEvent \<Rightarrow> RunRow" where
  "run_step r Begin_dispatch =
     (if row_status r = Pending then r\<lparr> row_status := Running \<rparr> else r)"
| "run_step r (Call_outcome call ok) =
     (if row_status r = Running \<and> call \<in> set (row_open_calls r) then
        (let r' = r\<lparr> row_open_calls := remove1 call (row_open_calls r),
                      row_completed_queries := row_completed_queries r + 1,
                      row_succeeded := row_succeeded r + (if ok then 1 else 0) \<rparr>
         in if row_completed_queries r' = row_total_queries r'
            then r'\<lparr> row_status := (if 0 < row_succeeded r' then Completed else Failed) \<rparr>
            else r')
      else r)"

definition run_trace :: "RunRow \<Rightarrow> RunEvent list \<Rightarrow> RunRow" where
  "run_trace r es = foldl run_step r es"

definition terminal :: "RunState \<Rightarrow> bool" where
  "terminal s = (s = Completed \<or> s = Failed)"

fun status_rank :: "RunState \<Rightarrow> nat" where
  "status_rank Pending = 0"
| "status_rank Running = 1"
| "status_rank Completed = 2"
| "status_rank Failed = 2"



text \<open>
  Modelled from the spec: what \<^verbatim>\<open>get_run_status\<close> and \<^verbatim>\<open>list_runs\<close> of the persistence
  boundary (specification, section 6) return for a run, absent from the sources: the
  status under its name and the two counters. The frontend compares the status with the
  strings \<^verbatim>\<open>'completed'\<close>, \<^verbatim>\<open>'running'\<close> and \<^verbatim>\<open>'failed'\<close>.
\<close>

fun status_name :: "RunState \<Rightarrow> string" where
  "status_name Pending = ''pending''"
| "status_name Running = ''running''"
| "status_name Completed = ''completed''"
| "status_name Failed = ''failed''"

definition get_run_status :: "RunRow \<Rightarrow> QueryRunStatus" where
  "get_run_status r =
     \<lparr> status_of = status_name (row_status r),
       status_total_queries = int (row_total_queries r),
       status_completed_queries = int (row_completed_queries r) \<rparr>"


section \<open>Generator page: polling the status of the active run\<close>

text \<open>
  The state of the page that the polling effect reads and writes, with two logs of what
  the page has asked of the backend: the run ids of the status requests issued, in order,
  and the number of calls of \<^verbatim>\<open>loadQueryRuns\<close>. \<^verbatim>\<open>activeRunId\<close> is \<^verbatim>\<open>number | null\<close>.
\<close>

record GeneratorState =
  running :: bool
  activeRunId :: "int option"
  progress :: js_number
  status_requests :: "int list"
  runs_reloads :: nat

text \<open>
  \<^verbatim>\<open>if (activeRunId)\<close>: the effect installs the interval when the id is neither \<^verbatim>\<open>null\<close>
  nor 0, and its cleanup clears the interval whenever \<^verbatim>\<open>activeRunId\<close> changes. So the
  interval exists exactly while the id is truthy.
\<close>

definition polling :: "GeneratorState \<Rightarrow> bool" where
  "polling s = (case activeRunId s of None \<Rightarrow> False | Some rid \<Rightarrow> rid \<noteq> 0)"

text \<open>
  What a status request comes to: \<^verbatim>\<open>getQueryRunStatus\<close> resolves to the status object,
  or it throws (network failure, or a response that is not ok).
\<close>

datatype StatusResult = Resolved QueryRunStatus | Thrown

text \<open>
  One tick of the interval, with the outcome of its request:
  \<^verbatim>\<open>
  try {
    const status = await getQueryRunStatus(activeRunId);
    setProgress((status.completed_queries / status.total_queries) * 100);
    if (status.status === 'completed' || status.status === 'failed') {
      setActiveRunId(null);
      setRunning(false);
      loadQueryRuns();
    }
  } catch (error) { console.error('Failed to get status:', error); }
  \<close>
  Without an interval there is no tick: the state stays as it is. A tick is taken as one
  step, its request answered before the next tick, on a page that stays open (leaving
  the page clears the interval as well).
\<close>

definition interval_tick :: "GeneratorState \<Rightarrow> StatusResult \<Rightarrow> GeneratorState" where
  "interval_tick s res =
     (case activeRunId s of
        None \<Rightarrow> s
      | Some rid \<Rightarrow>
          if rid = 0 then s
          else
            (let s1 = s\<lparr> status_requests := status_requests s @ [rid] \<rparr> in
             case res of
               Thrown \<Rightarrow> s1
             | Resolved st \<Rightarrow>
                 (let s2 = s1\<lparr> progress := poll_progress st \<rparr> in
                  if status_of st = ''completed'' \<or> status_of st = ''failed''
                  then s2\<lparr> activeRunId := None, running := False,
                            runs_reloads := runs_reloads s2 + 1 \<rparr>
                  else s2)))"

definition interval_ticks :: "GeneratorState \<Rightarrow> StatusResult list \<Rightarrow> GeneratorState" where
  "interval_ticks s ress = foldl interval_tick s ress"

definition observes_terminal :: "StatusResult \<Rightarrow> bool" where
  "observes_terminal res =
     (case res of
        Thrown \<Rightarrow> False
      | Resolved st \<Rightarrow> status_of st = ''completed'' \<or> status_of st = ''failed'')"

definition example_generator_state :: GeneratorState where
  "example_generator_state =
     \<lparr> running = True, activeRunId = Some 7, progress = Finite 0,
       status_requests = [], runs_reloads = 0 \<rparr>"

section \<open>Strings of the API client\<close>

text \<open>
  \<^verbatim>\<open>s.split(sep)\<close> for a separator of one character: the pieces between the
  separators, in order; the empty string splits into one empty piece.
\<close>

fun split_on :: "'a \<Rightarrow> 'a list \<Rightarrow> 'a list list" where
  "split_on sep [] = [ [] ]"
| "split_on sep (c # cs) =
     (if c = sep then [] # split_on sep cs
      else (case split_on sep cs of
              [] \<Rightarrow> [ [c] ]
            | p # ps \<Rightarrow> (c # p) # ps))"

text \<open>
  A number in a template literal, \<^verbatim>\<open>`${runId}`\<close>: for an integer (below \<open>10\<^sup>2\<^sup>1\<close> in
  absolute value, as every run id and day count is) its decimal digits, with a minus
  sign when negative. A boolean prints as \<^verbatim>\<open>true\<close> or \<^verbatim>\<open>false\<close>.
\<close>

definition digit_char :: "nat \<Rightarrow> char" where
  "digit_char d = ''0123456789'' ! (d mod 10)"

fun string_of_nat :: "nat \<Rightarrow> string" where
  "string_of_nat n =
     (if n < 10 then [digit_char n] else string_of_nat (n div 10) @ [digit_char n])"

definition js_string_of_int :: "int \<Rightarrow> string" where
  "js_string_of_int i =
     (if i < 0 then CHR ''-'' # string_of_nat (nat (- i)) else string_of_nat (nat i))"

definition js_string_of_bool :: "bool \<Rightarrow> string" where
  "js_string_of_bool b = (if b then ''true'' else ''false'')"

section \<open>API client: the analysis endpoints (lib/api.ts)\<close>

text \<open>
  The filter of the pages, \<^verbatim>\<open>type BrandedFilter = 'all' | 'branded' | 'non_branded'\<close>, and
  the parameter \<^verbatim>\<open>branded?: boolean | null\<close> of the client functions.
\<close>

datatype BrandedFilter = Filter_all_queries | Filter_branded | Filter_non_branded

datatype BrandedArg = Undefined | Null | Bool bool

text \<open>
  Every page computes the argument in the same way:
  \<^verbatim>\<open>const branded = filter === 'all' ? null : filter === 'branded';\<close>
\<close>

definition branded_of_filter :: "BrandedFilter \<Rightarrow> BrandedArg" where
  "branded_of_filter f = (if f = Filter_all_queries then Null else Bool (f = Filter_branded))"

text \<open>
  The endpoint that each client function hands to \<^verbatim>\<open>fetchWithAuth\<close>:
  \<^verbatim>\<open>
  let url = `/analysis/runs/${runId}/summary`;
  if (branded !== undefined && branded !== null) { url += `?branded=${branded}`; }
  \<close>
  and likewise for the other functions; \<^verbatim>\<open>getTimeSeriesData\<close> appends
  \<^verbatim>\<open>`&branded=${branded}`\<close> to \<^verbatim>\<open>`/analysis/time-series?days=${days}`\<close>, and
  \<^verbatim>\<open>getCitationAnalysis\<close> has no parameter \<^verbatim>\<open>branded\<close>.
\<close>

definition add_branded :: "string \<Rightarrow> string \<Rightarrow> BrandedArg \<Rightarrow> string" where
  "add_branded url sep branded =
     (case branded of
        Bool b \<Rightarrow> url @ sep @ ''branded='' @ js_string_of_bool b
      | _ \<Rightarrow> url)"

definition getRunAnalysisSummary :: "int \<Rightarrow> BrandedArg \<Rightarrow> string" where
  "getRunAnalysisSummary runId branded =
     add_branded (''/analysis/runs/'' @ js_string_of_int runId @ ''/summary'') ''?'' branded"

definition getGapAnalysis :: "int \<Rightarrow> BrandedArg \<Rightarrow> string" where
  "getGapAnalysis runId branded =
     add_branded (''/analysis/runs/'' @ js_string_of_int runId @ ''/gaps'') ''?'' branded"

definition getCompetitorAnalysis :: "int \<Rightarrow> BrandedArg \<Rightarrow> string" where
  "getCompetitorAnalysis runId branded =
     add_branded (''/analysis/runs/'' @ js_string_of_int runId @ ''/competitors'') ''?'' branded"

definition getTimeSeriesData :: "int \<Rightarrow> BrandedArg \<Rightarrow> string" where
  "getTimeSeriesData days branded =
     add_branded (''/analysis/time-series?days='' @ js_string_of_int days) ''&'' branded"

definition getCitationAnalysis :: "int \<Rightarrow> string" where
  "getCitationAnalysis runId = ''/analysis/runs/'' @ js_string_of_int runId @ ''/citations''"

definition getMentionRatesBySource :: "BrandedArg \<Rightarrow> string" where
  "getMentionRatesBySource branded =
     add_branded ''/analysis/mention-rates-by-source'' ''?'' branded"

definition getDashboardStatsFiltered :: "BrandedArg \<Rightarrow> string" where
  "getDashboardStatsFiltered branded =
     add_branded ''/analysis/dashboard-stats-filtered'' ''?'' branded"

text \<open>
  The analysis requests that each page issues for a filter selection: \<^verbatim>\<open>loadAnalysis\<close> of
  the analysis page (summary, then citations), of the gaps page and of the competitors
  page, \<^verbatim>\<open>loadData\<close> of the trends page and \<^verbatim>\<open>loadFilteredData\<close> of the dashboard.
\<close>

definition analysis_loadAnalysis :: "int \<Rightarrow> BrandedFilter \<Rightarrow> string list" where
  "analysis_loadAnalysis runId f =
     (let branded = branded_of_filter f
      in [getRunAnalysisSummary runId branded, getCitationAnalysis runId])"

definition gaps_loadAnalysis :: "int \<Rightarrow> BrandedFilter \<Rightarrow> string list" where
  "gaps_loadAnalysis runId f = (let branded = branded_of_filter f in [getGapAnalysis runId branded])"

definition competitors_loadAnalysis :: "int \<Rightarrow> BrandedFilter \<Rightarrow> string list" where
  "competitors_loadAnalysis runId f =
     (let branded = branded_of_filter f in [getCompetitorAnalysis runId branded])"

definition trends_loadData :: "int \<Rightarrow> BrandedFilter \<Rightarrow> string list" where
  "trends_loadData days f = (let branded = branded_of_filter f in [getTimeSeriesData days branded])"

definition dashboard_loadFilteredData :: "BrandedFilter \<Rightarrow> string list" where
  "dashboard_loadFilteredData f =
     (let branded = branded_of_filter f
      in [getMentionRatesBySource branded, getDashboardStatsFiltered branded])"

text \<open>
  Reading a request back: the query string of a URL is what follows its first \<^verbatim>\<open>?\<close>,
  its parameters are the pieces between the \<^verbatim>\<open>&\<close>, and the values of the parameter
  \<^verbatim>\<open>branded\<close> are what follows \<^verbatim>\<open>branded=\<close> in the parameters that start so.
\<close>

definition url_parameters :: "string \<Rightarrow> string list" where
  "url_parameters url =
     (case dropWhile (\<lambda>c. c \<noteq> CHR ''?'') url of
        [] \<Rightarrow> []
      | q # query_string \<Rightarrow> split_on (CHR ''&'') query_string)"

definition branded_values :: "string \<Rightarrow> string list" where
  "branded_values url =
     map (drop 8) (filter (\<lambda>p. take 8 p = ''branded='') (url_parameters url))"

text \<open>
  The mapping of the filter in the words of the claim: \<^verbatim>\<open>branded=true\<close> for
  \<^verbatim>\<open>'branded'\<close>, \<^verbatim>\<open>branded=false\<close> for \<^verbatim>\<open>'non_branded'\<close>, no parameter for \<^verbatim>\<open>'all'\<close>.
\<close>

fun expected_branded :: "BrandedFilter \<Rightarrow> string list" where
  "expected_branded Filter_all_queries = []"
| "expected_branded Filter_branded = [''true'']"
| "expected_branded Filter_non_branded = [''false'']"

section \<open>Generator page: custom queries (handleRunCustom)\<close>

text \<open>
  Text that the user types is a JavaScript string: a list of UTF-16 code units, here
  natural numbers. (Strings that the model only copies or compares with a literal are
  \<open>string\<close>.) \<^verbatim>\<open>trim\<close> removes white space and line terminators from both ends: the code
  units 9 to 13, 32, 160, 5760, 8192 to 8202, 8232, 8233, 8239, 8287, 12288 and 65279.
\<close>

type_synonym js_string = "nat list"

definition js_whitespace :: "nat \<Rightarrow> bool" where
  "js_whitespace c =
     ((9 \<le> c \<and> c \<le> 13) \<or> c = 32 \<or> c = 160 \<or> c = 5760 \<or> (8192 \<le> c \<and> c \<le> 8202)
      \<or> c = 8232 \<or> c = 8233 \<or> c = 8239 \<or> c = 8287 \<or> c = 12288 \<or> c = 65279)"

definition js_trim :: "js_string \<Rightarrow> js_string" where
  "js_trim s = rev (dropWhile js_whitespace (rev (dropWhile js_whitespace s)))"

text \<open>The line feed, \<^verbatim>\<open>'\n'\<close>.\<close>

definition newline :: nat where
  "newline = 10"

text \<open>\<^verbatim>\<open>parts.join(sep)\<close>, the inverse of \<^verbatim>\<open>split\<close>.\<close>

fun js_join :: "'a \<Rightarrow> 'a list list \<Rightarrow> 'a list" where
  "js_join sep [] = []"
| "js_join sep [p] = p"
| "js_join sep (p # q # ps) = p @ sep # js_join sep (q # ps)"

text \<open>The interface \<^verbatim>\<open>Client\<close> of the page and the interface \<^verbatim>\<open>QueryRunCreate\<close> of the client.\<close>

record Client =
  client_id :: int
  brand_name :: string
  default_openai_model :: string
  default_gemini_model :: string
  default_perplexity_model :: string

record QueryRunCreate =
  create_name :: "string option"
  create_description :: "string option"
  create_queries :: "js_string list"
  create_run_type :: "string option"
  create_openai_model :: "string option"
  create_gemini_model :: "string option"
  create_perplexity_model :: "string option"

text \<open>
  \<^verbatim>\<open>
  const queries = customQueries.split('\n').map((q) => q.trim()).filter((q) => q.length > 0);
  \<close>
\<close>

definition custom_queries_list :: "js_string \<Rightarrow> js_string list" where
  "custom_queries_list customQueries =
     filter (\<lambda>q. length q > 0) (map (\<lambda>q. js_trim q) (split_on newline customQueries))"

text \<open>
  The request that \<^verbatim>\<open>handleRunCustom\<close> hands to \<^verbatim>\<open>createQueryRun\<close>, or \<open>None\<close> when it
  returns before:
  \<^verbatim>\<open>
  if (!client || !customQueries.trim()) return;
  const queries = ...;
  if (queries.length === 0) return;
  ...
  const run = await createQueryRun({
    name: `Custom Run - ${new Date().toLocaleString()}`, queries, run_type: 'custom',
    openai_model: client.default_openai_model, gemini_model: client.default_gemini_model,
    perplexity_model: client.default_perplexity_model });
  \<close>
  \<open>now\<close> is the text of the current date.
\<close>

definition handleRunCustom :: "Client option \<Rightarrow> js_string \<Rightarrow> string \<Rightarrow> QueryRunCreate option" where
  "handleRunCustom client customQueries now =
     (case client of
        None \<Rightarrow> None
      | Some c \<Rightarrow>
          if js_trim customQueries = [] then None
          else
            (let queries = custom_queries_list customQueries in
             if length queries = 0 then None
             else Some \<lparr> create_name = Some (''Custom Run - '' @ now),
                         create_description = None,
                         create_queries = queries,
                         create_run_type = Some ''custom'',
                         create_openai_model = Some (default_openai_model c),
                         create_gemini_model = Some (default_gemini_model c),
                         create_perplexity_model = Some (default_perplexity_model c) \<rparr>))"

text \<open>
  The queries of a run in the words of the claim: the lines of the text, each trimmed,
  the empty ones left out, in their order.
\<close>

definition trimmed_nonempty_lines :: "js_string \<Rightarrow> js_string list" where
  "trimmed_nonempty_lines content =
     concat (map (\<lambda>line. if js_trim line = [] then [] else [js_trim line])
                 (split_on newline content))"

definition example_client :: Client where
  "example_client =
     \<lparr> client_id = 1, brand_name = ''Acme'', default_openai_model = ''gpt-4o'',
       default_gemini_model = ''gemini-pro'', default_perplexity_model = ''sonar'' \<rparr>"

section \<open>API client: fetchWithAuth (lib/api.ts)\<close>

text \<open>
  What \<^verbatim>\<open>fetchWithAuth\<close> reads and writes of its surroundings: whether there is a
  \<^verbatim>\<open>window\<close> at all (\<^verbatim>\<open>typeof window === 'undefined'\<close> outside a browser), the
  \<^verbatim>\<open>localStorage\<close>, a map from keys to strings, and \<^verbatim>\<open>window.location.href\<close>.
\<close>

record Browser =
  has_window :: bool
  localStorage :: "string \<rightharpoonup> string"
  location_href :: string

text \<open>
  \<^verbatim>\<open>
  const getToken = (): string | null => {
    if (typeof window === 'undefined') return null;
    return localStorage.getItem('token');
  };
  \<close>
\<close>

definition getToken :: "Browser \<Rightarrow> string option" where
  "getToken b = (if \<not> has_window b then None else localStorage b ''token'')"

text \<open>
  The \<^verbatim>\<open>RequestInit\<close> as far as the client uses it (method, body, headers), and the
  \<^verbatim>\<open>Response\<close> as far as it is read (the status; the body is carried along).
\<close>

record RequestInit =
  init_method :: "string option"
  init_body :: "string option"
  init_headers :: "string \<rightharpoonup> string"

record Response =
  response_status :: nat
  response_body :: string

text \<open>
  The headers of the request:
  \<^verbatim>\<open>
  const token = getToken();
  const headers = { 'Content-Type': 'application/json', ...options.headers };
  if (token) { headers['Authorization'] = `Bearer ${token}`; }
  \<close>
  A string is truthy when it is not empty.
\<close>

definition request_headers :: "Browser \<Rightarrow> RequestInit \<Rightarrow> (string \<rightharpoonup> string)" where
  "request_headers b options =
     (let token = getToken b;
          headers = [''Content-Type'' \<mapsto> ''application/json''] ++ init_headers options
      in case token of
           None \<Rightarrow> headers
         | Some t \<Rightarrow> if t \<noteq> [] then headers(''Authorization'' \<mapsto> ''Bearer '' @ t) else headers)"

text \<open>
  \<^verbatim>\<open>fetch\<close> either resolves to a response or rejects; outside a browser there is no
  \<^verbatim>\<open>localStorage\<close>, and the statement that names it throws.
\<close>

datatype FetchFailure = Network_error | Reference_error

text \<open>
  \<^verbatim>\<open>
  const response = await fetch(`${API_BASE}${endpoint}`, { ...options, headers });
  if (response.status === 401) {
    localStorage.removeItem('token');
    localStorage.removeItem('user');
    window.location.href = '/login';
  }
  return response;
  \<close>
  \<open>API_BASE\<close> is the constant of the module (from the environment, or \<^verbatim>\<open>'/api'\<close>);
  \<open>fetch\<close> stands for the network.
\<close>

definition fetchWithAuth ::
  "string \<Rightarrow> (string \<Rightarrow> RequestInit \<Rightarrow> Response option) \<Rightarrow> Browser \<Rightarrow> string \<Rightarrow> RequestInit
     \<Rightarrow> FetchFailure + (Browser \<times> Response)" where
  "fetchWithAuth API_BASE fetch b endpoint options =
     (case fetch (API_BASE @ endpoint) (options\<lparr> init_headers := request_headers b options \<rparr>) of
        None \<Rightarrow> Inl Network_error
      | Some response \<Rightarrow>
          if response_status response = 401 then
            (if has_window b then
               Inr (b\<lparr> localStorage := (localStorage b)(''token'' := None, ''user'' := None),
                        location_href := ''/login'' \<rparr>,
                    response)
             else Inl Reference_error)
          else Inr (b, response))"

text \<open>The default \<^verbatim>\<open>options = {}\<close>, a browser with a session, and a network that answers
  every request with a given status.\<close>

definition no_options :: RequestInit where
  "no_options = \<lparr> init_method = None, init_body = None, init_headers = Map.empty \<rparr>"

definition browser_with_token :: "string \<Rightarrow> Browser" where
  "browser_with_token t =
     \<lparr> has_window = True,
       localStorage = [''token'' \<mapsto> t, ''user'' \<mapsto> ''{}'', ''theme'' \<mapsto> ''dark''],
       location_href = ''/dashboard'' \<rparr>"

definition answer_with :: "nat \<Rightarrow> string \<Rightarrow> RequestInit \<Rightarrow> Response option" where
  "answer_with code url init = Some \<lparr> response_status = code, response_body = ''{}'' \<rparr>"

section \<open>Analysis, gaps and competitors pages: the selected run\<close>
















section \<open>Properties of the gaps page\<close>

lemma category_partition_length:
  "length (filter (\<lambda>g. getCategoryType g = Win) gs)
     + length (filter (\<lambda>g. getCategoryType g = Critical) gs)
     + length (filter (\<lambda>g. getCategoryType g = Competitive) gs)
     + length (filter (\<lambda>g. getCategoryType g = Blue_ocean) gs)
   = length gs"
proof (induction gs)
  case Nil
  show ?case by simp
next
  case (Cons g gs)
  then show ?case by (cases "getCategoryType g") simp_all
qed

text \<open>
  Claim C1. The categorization is a total function of the two booleans
  \<^verbatim>\<open>brand_mentioned\<close> and \<^verbatim>\<open>has_competitors\<close>: every gap gets exactly one of the four
  categories; it is the exclusive win exactly when the brand is mentioned and no
  competitor is, the critical gap exactly when the brand is not mentioned and a competitor
  is, competitive exactly when both are mentioned, and the blue ocean exactly when neither
  is. The labels the page shows for the four values are the four category names.
\<close>

theorem getCategoryType_mapping:
  "(getCategoryType g = Win) = (brand_mentioned g \<and> \<not> has_competitors g)
   \<and> (getCategoryType g = Critical) = (\<not> brand_mentioned g \<and> has_competitors g)
   \<and> (getCategoryType g = Competitive) = (brand_mentioned g \<and> has_competitors g)
   \<and> (getCategoryType g = Blue_ocean) = (\<not> brand_mentioned g \<and> \<not> has_competitors g)
   \<and> length (filter (\<lambda>c. getCategoryType g = c) [Win, Critical, Competitive, Blue_ocean]) = 1
   \<and> map getCategoryConfig_label [Win, Critical, Competitive, Blue_ocean]
       = [''Exclusive Win'', ''Critical Gap'', ''Competitive'', ''Blue Ocean'']"
  by (simp add: getCategoryType_def)

theorem getCategoryType_mapping_witness:
  "getCategoryType (example_gap True False) = Win
   \<and> getCategoryType (example_gap False True) = Critical
   \<and> getCategoryType (example_gap True True) = Competitive
   \<and> getCategoryType (example_gap False False) = Blue_ocean"
  using getCategoryType_mapping [of "example_gap True False"]
    getCategoryType_mapping [of "example_gap False True"]
    getCategoryType_mapping [of "example_gap True True"]
    getCategoryType_mapping [of "example_gap False False"]
  by (simp add: example_gap_def)

text \<open>
  Claim C10. Each of the four counters of the gaps page is the number of gaps of its
  category, so the four counters sum to the length of the gaps list (and to 0 while no
  analysis is loaded); with the category filter set to \<^verbatim>\<open>'all'\<close> the filtered list is the
  whole gaps list.
\<close>

theorem stats_sum_and_filter_all:
  "wins (stats (Some a)) = length (filter (\<lambda>g. getCategoryType g = Win) (gaps a))
   \<and> critical (stats (Some a)) = length (filter (\<lambda>g. getCategoryType g = Critical) (gaps a))
   \<and> competitive (stats (Some a))
       = length (filter (\<lambda>g. getCategoryType g = Competitive) (gaps a))
   \<and> blue_ocean (stats (Some a))
       = length (filter (\<lambda>g. getCategoryType g = Blue_ocean) (gaps a))
   \<and> stats_total (stats (Some a)) = length (gaps a)
   \<and> filteredGaps Filter_all (Some a) = gaps a
   \<and> stats_total (stats None) = 0
   \<and> filteredGaps Filter_all None = []"
  using category_partition_length [of "gaps a"]
  by (simp add: stats_def stats_total_def filteredGaps_def keepGap_def)

theorem stats_sum_and_filter_all_witness:
  "stats (Some example_gap_analysis)
     = \<lparr> wins = 1, critical = 2, competitive = 0, blue_ocean = 0 \<rparr>
   \<and> stats_total (stats (Some example_gap_analysis)) = 3
   \<and> length (filteredGaps Filter_all (Some example_gap_analysis)) = 3"
  using stats_sum_and_filter_all [of example_gap_analysis]
  by (simp add: stats_def example_gap_analysis_def example_gap_def
      getCategoryType_def filteredGaps_def keepGap_def)

section \<open>Properties of the progress computation\<close>

lemma poll_progress_in_range:
  assumes "0 < status_total_queries st" and "0 \<le> status_completed_queries st"
    and "status_completed_queries st \<le> status_total_queries st"
  shows "\<exists>p. poll_progress st = Finite p \<and> 0 \<le> p \<and> p \<le> 100"
proof -
  let ?c = "of_int (status_completed_queries st) :: rat"
  let ?t = "of_int (status_total_queries st) :: rat"
  have t: "0 < ?t" and c: "0 \<le> ?c" and ct: "?c \<le> ?t"
    using assms by simp_all
  have le1: "?c / ?t \<le> 1" using t ct by (simp add: divide_le_eq)
  have ge0: "0 \<le> ?c / ?t" using t c by simp
  have eq: "poll_progress st = Finite (?c / ?t * 100)"
    using assms(1) by (simp add: poll_progress_def js_divide_def)
  have "?c / ?t * 100 \<le> 1 * 100"
    using le1 by (intro mult_right_mono) simp_all
  moreover have "0 \<le> ?c / ?t * 100"
    using ge0 by (intro mult_nonneg_nonneg) simp_all
  ultimately show ?thesis using eq by simp
qed

text \<open>
  Claim C2. The claim asks that a rate with a zero denominator be 0 and never
  \<^verbatim>\<open>NaN\<close>. The polling effect of the generator page divides without a guard: for the
  status object with \<^verbatim>\<open>total_queries = 0\<close> and \<^verbatim>\<open>completed_queries = 0\<close> the progress
  it stores is \<^verbatim>\<open>NaN\<close>, not 0, and with \<^verbatim>\<open>completed_queries = 1\<close> it is \<^verbatim>\<open>Infinity\<close>; the
  width of the bar in the table of recent runs is computed the same way. The admin costs
  page of the same frontend guards its rate and yields 0 on a zero denominator.
\<close>

theorem poll_progress_zero_total_is_NaN:
  "poll_progress \<lparr> status_of = ''running'', status_total_queries = 0,
                   status_completed_queries = 0 \<rparr> = NaN
   \<and> poll_progress \<lparr> status_of = ''running'', status_total_queries = 0,
                     status_completed_queries = 0 \<rparr> \<noteq> Finite 0
   \<and> poll_progress \<lparr> status_of = ''running'', status_total_queries = 0,
                     status_completed_queries = 1 \<rparr> = PosInfinity
   \<and> run_progress_width \<lparr> run_id = 1, run_name = None, run_status = ''pending'',
                          total_queries = 0, completed_queries = 0,
                          created_at = ''2025-01-01T00:00:00'' \<rparr> = NaN
   \<and> cost_percentage 0 0 = Finite 0"
  by (simp add: poll_progress_def run_progress_width_def run_progress_fraction_def
      js_divide_def cost_percentage_def)

section \<open>Properties of the leaderboard\<close>

lemma js_insert_insort_key:
  "js_insert compare_rate x ys = insort_key (\<lambda>c. - mention_rate c) x ys"
  by (induction ys) (auto simp: compare_rate_def)

lemma js_sort_sort_key:
  "js_sort compare_rate xs = sort_key (\<lambda>c. - mention_rate c) xs"
  by (induction xs) (auto simp: js_sort_def js_insert_insort_key sort_key_def)

lemma js_sort_descending:
  "sorted_wrt (\<lambda>a b. mention_rate a \<ge> mention_rate b) (js_sort compare_rate xs)"
proof -
  have "sorted (map (\<lambda>c. - mention_rate c) (sort_key (\<lambda>c. - mention_rate c) xs))"
    by (rule sorted_sort_key)
  then show ?thesis
    by (simp add: js_sort_sort_key sorted_map)
qed

lemma js_sort_stable:
  "filter (\<lambda>c. mention_rate c = r) (js_sort compare_rate xs)
     = filter (\<lambda>c. mention_rate c = r) xs"
proof -
  have "filter (\<lambda>c. - mention_rate c = - r) (sort_key (\<lambda>c. - mention_rate c) xs)
          = filter (\<lambda>c. - mention_rate c = - r) xs"
    by (rule sort_key_stable)
  then show ?thesis by (simp add: js_sort_sort_key)
qed

lemma leaderboard_before_rate:
  "leaderboard_before a b \<Longrightarrow> mention_rate a \<ge> mention_rate b"
  by (auto simp: leaderboard_before_def)

lemma js_sort_id_if_leaderboard:
  assumes "sorted_wrt leaderboard_before xs"
  shows "js_sort compare_rate xs = xs"
proof -
  have "sorted_wrt (\<lambda>a b. mention_rate a \<ge> mention_rate b) xs"
    using assms leaderboard_before_rate by (rule sorted_wrt_mono_rel [rotated]) 
  then have "sorted (map (\<lambda>c. - mention_rate c) xs)"
    by (simp add: sorted_map)
  then show ?thesis
    by (simp add: js_sort_sort_key sort_key_id_if_sorted)
qed

text \<open>
  Claim C3, as stated, fails: the page sorts by the mention rate alone. Two entities with
  the same rate and the same count stay in the order of the input, also when that is not
  the alphabetical one, and of two entities with the same rate the one with the smaller
  count stays first when the input has it first.
\<close>

theorem sortedComparison_ties_counterexample:
  "sortedComparison (Some (example_comparison
       [entity ''Zeta'' False 5 50, entity ''Acme'' True 5 50]))
     = [entity ''Zeta'' False 5 50, entity ''Acme'' True 5 50]
   \<and> \<not> sorted_wrt leaderboard_before (sortedComparison (Some (example_comparison
       [entity ''Zeta'' False 5 50, entity ''Acme'' True 5 50])))
   \<and> sortedComparison (Some (example_comparison
       [entity ''Beta'' False 3 50, entity ''Acme'' True 5 50]))
     = [entity ''Beta'' False 3 50, entity ''Acme'' True 5 50]
   \<and> \<not> sorted_wrt leaderboard_before (sortedComparison (Some (example_comparison
       [entity ''Beta'' False 3 50, entity ''Acme'' True 5 50])))"
  by (simp add: sortedComparison_def example_comparison_def entity_def js_sort_def
      compare_rate_def leaderboard_before_def)

text \<open>
  Claim C3, amended. The leaderboard of the page is the comparison list of the analysis,
  reordered by descending mention rate with a stable sort: it has the same entries,
  entities with equal rates keep the order they have in the input list, so the ranking
  is a function of the input list; ties are ordered by mention count and name exactly
  as far as the input list already is: a list that is in the order of the specification
  is displayed unchanged. Without an analysis the leaderboard is empty.
\<close>

theorem sortedComparison_stable_descending:
  "sorted_wrt (\<lambda>x y. mention_rate x \<ge> mention_rate y) (sortedComparison (Some a))
   \<and> mset (sortedComparison (Some a)) = mset (comparison a)
   \<and> filter (\<lambda>c. mention_rate c = r) (sortedComparison (Some a))
       = filter (\<lambda>c. mention_rate c = r) (comparison a)
   \<and> (sorted_wrt leaderboard_before (comparison a)
        \<longrightarrow> sortedComparison (Some a) = comparison a)
   \<and> sortedComparison None = []"
proof -
  have "mset (js_sort compare_rate (comparison a)) = mset (comparison a)"
    by (simp add: js_sort_sort_key)
  then show ?thesis
    by (simp add: sortedComparison_def js_sort_descending js_sort_stable
        js_sort_id_if_leaderboard)
qed

theorem sortedComparison_stable_descending_witness:
  "sorted_wrt leaderboard_before
     [entity ''Acme'' True 7 70, entity ''Beta'' False 5 50, entity ''Zeta'' False 5 50]
   \<and> sortedComparison (Some (example_comparison
        [entity ''Acme'' True 7 70, entity ''Beta'' False 5 50, entity ''Zeta'' False 5 50]))
      = [entity ''Acme'' True 7 70, entity ''Beta'' False 5 50, entity ''Zeta'' False 5 50]
   \<and> sortedComparison (Some (example_comparison
        [entity ''Zeta'' False 5 50, entity ''Acme'' True 7 70, entity ''Beta'' False 5 50]))
      = [entity ''Acme'' True 7 70, entity ''Zeta'' False 5 50, entity ''Beta'' False 5 50]"
  using sortedComparison_stable_descending
    [of "example_comparison
        [entity ''Acme'' True 7 70, entity ''Beta'' False 5 50, entity ''Zeta'' False 5 50]" 50]
  by (simp add: sortedComparison_def example_comparison_def entity_def js_sort_def
      compare_rate_def leaderboard_before_def)

section \<open>Properties of the progress contract\<close>






lemma run_step_total: "row_total_queries (run_step r e) = row_total_queries r"
  by (cases e) (simp_all add: Let_def)

lemma run_trace_total: "row_total_queries (run_trace r es) = row_total_queries r"
  unfolding run_trace_def
  by (induction es arbitrary: r) (simp_all add: run_step_total)



lemma run_step_status:
  "row_status (run_step r e) = row_status r
   \<or> (row_status r = Pending \<and> row_status (run_step r e) = Running)
   \<or> (row_status r = Running \<and> terminal (row_status (run_step r e)))"
  by (cases e) (simp_all add: Let_def terminal_def)

lemma run_step_rank: "status_rank (row_status r) \<le> status_rank (row_status (run_step r e))"
  using run_step_status [of r e]
  by (cases "row_status r"; cases "row_status (run_step r e)") (simp_all add: terminal_def)

lemma run_trace_rank: "status_rank (row_status r) \<le> status_rank (row_status (run_trace r es))"
  unfolding run_trace_def
proof (induction es arbitrary: r)
  case Nil
  show ?case by simp
next
  case (Cons e es)
  have "status_rank (row_status r) \<le> status_rank (row_status (run_step r e))"
    by (rule run_step_rank)
  also have "\<dots> \<le> status_rank (row_status (foldl run_step (run_step r e) es))"
    by (rule Cons.IH)
  finally show ?case by simp
qed

lemma run_step_terminal: "terminal (row_status r) \<Longrightarrow> run_step r e = r"
  by (cases e) (auto simp: terminal_def)

lemma run_trace_terminal: "terminal (row_status r) \<Longrightarrow> run_trace r es = r"
  unfolding run_trace_def
  by (induction es) (simp_all add: run_step_terminal)



section \<open>Properties of the polling consumer\<close>

lemma observes_terminal_get_run_status:
  "observes_terminal (Resolved (get_run_status r)) = terminal (row_status r)"
  by (cases "row_status r") (simp_all add: observes_terminal_def get_run_status_def terminal_def)

lemma interval_tick_idle: "\<not> polling s \<Longrightarrow> interval_tick s res = s"
  by (auto simp: polling_def interval_tick_def split: option.splits)

lemma interval_ticks_idle: "\<not> polling s \<Longrightarrow> interval_ticks s ress = s"
  unfolding interval_ticks_def
  by (induction ress) (simp_all add: interval_tick_idle)

lemma interval_tick_terminal:
  assumes "polling s" and "observes_terminal res"
  shows "activeRunId (interval_tick s res) = None"
    and "\<not> running (interval_tick s res)"
    and "\<not> polling (interval_tick s res)"
    and "runs_reloads (interval_tick s res) = runs_reloads s + 1"
  using assms
  by (auto simp: polling_def interval_tick_def observes_terminal_def Let_def
      split: option.splits StatusResult.splits)

lemma interval_tick_continue:
  assumes "polling s" and "\<not> observes_terminal res"
  shows "activeRunId (interval_tick s res) = activeRunId s"
    and "running (interval_tick s res) = running s"
    and "polling (interval_tick s res)"
  using assms
  by (auto simp: polling_def interval_tick_def observes_terminal_def Let_def
      split: option.splits StatusResult.splits)

lemma interval_tick_request:
  assumes "polling s" and "activeRunId s = Some rid"
  shows "status_requests (interval_tick s res) = status_requests s @ [rid]"
  using assms
  by (auto simp: polling_def interval_tick_def Let_def
      split: option.splits StatusResult.splits)

text \<open>
  Claim C5. On the orchestrator of the specification the status of a run only moves
  forward along pending, running, completed or failed: a step keeps the status, or moves
  it from pending to running, or from running to a terminal status; over any sequence of
  events the rank of the status never decreases, and a terminal status never changes
  again. The status that \<^verbatim>\<open>get_run_status\<close> reports is one of the two terminal names
  exactly when the run is terminal. The polling effect of the generator page, while it
  polls (\<^verbatim>\<open>activeRunId\<close> set), issues one status request per tick for the active run; when
  the answer carries the status \<^verbatim>\<open>'completed'\<close> or \<^verbatim>\<open>'failed'\<close> it sets \<^verbatim>\<open>activeRunId\<close> to
  \<^verbatim>\<open>null\<close> and \<^verbatim>\<open>running\<close> to false, the interval is gone, and whatever happens later no
  further status request is issued; on any other answer, or when the request throws, it
  keeps \<^verbatim>\<open>activeRunId\<close> and \<^verbatim>\<open>running\<close> and goes on polling.
\<close>

theorem status_moves_forward_and_polling_stops:
  "(row_status (run_step r e) = row_status r
      \<or> (row_status r = Pending \<and> row_status (run_step r e) = Running)
      \<or> (row_status r = Running
          \<and> (row_status (run_step r e) = Completed \<or> row_status (run_step r e) = Failed)))
   \<and> status_rank (row_status r) \<le> status_rank (row_status (run_trace r es))
   \<and> (row_status r = Completed \<or> row_status r = Failed
        \<longrightarrow> row_status (run_trace r es) = row_status r)
   \<and> observes_terminal (Resolved (get_run_status r))
        = (row_status r = Completed \<or> row_status r = Failed)
   \<and> (polling s \<and> activeRunId s = Some rid
        \<longrightarrow> status_requests (interval_tick s res) = status_requests s @ [rid])
   \<and> (polling s \<and> observes_terminal res
        \<longrightarrow> activeRunId (interval_tick s res) = None
            \<and> \<not> running (interval_tick s res)
            \<and> \<not> polling (interval_tick s res)
            \<and> status_requests (interval_ticks (interval_tick s res) ress)
                = status_requests (interval_tick s res))
   \<and> (polling s \<and> \<not> observes_terminal res
        \<longrightarrow> activeRunId (interval_tick s res) = activeRunId s
            \<and> running (interval_tick s res) = running s
            \<and> polling (interval_tick s res))"
proof -
  have step: "row_status (run_step r e) = row_status r
      \<or> (row_status r = Pending \<and> row_status (run_step r e) = Running)
      \<or> (row_status r = Running
          \<and> (row_status (run_step r e) = Completed \<or> row_status (run_step r e) = Failed))"
    using run_step_status [of r e] by (simp add: terminal_def)
  have fixed: "row_status r = Completed \<or> row_status r = Failed
        \<longrightarrow> row_status (run_trace r es) = row_status r"
    using run_trace_terminal [of r es] by (simp add: terminal_def)
  have seen: "observes_terminal (Resolved (get_run_status r))
        = (row_status r = Completed \<or> row_status r = Failed)"
    by (simp add: observes_terminal_get_run_status terminal_def)
  have stop: "polling s \<and> observes_terminal res
        \<longrightarrow> activeRunId (interval_tick s res) = None
            \<and> \<not> running (interval_tick s res)
            \<and> \<not> polling (interval_tick s res)
            \<and> status_requests (interval_ticks (interval_tick s res) ress)
                = status_requests (interval_tick s res)"
    by (simp add: interval_tick_terminal interval_ticks_idle)
  have go_on: "polling s \<and> \<not> observes_terminal res
        \<longrightarrow> activeRunId (interval_tick s res) = activeRunId s
            \<and> running (interval_tick s res) = running s
            \<and> polling (interval_tick s res)"
    by (simp add: interval_tick_continue)
  have req: "polling s \<and> activeRunId s = Some rid
        \<longrightarrow> status_requests (interval_tick s res) = status_requests s @ [rid]"
    by (simp add: interval_tick_request)
  from step run_trace_rank [of r es] fixed seen req stop go_on show ?thesis
    by blast
qed

theorem status_moves_forward_and_polling_stops_witness:
  "polling example_generator_state
   \<and> \<not> observes_terminal (Resolved (get_run_status
         \<lparr> row_status = Running, row_total_queries = 2, row_completed_queries = 1,
           row_succeeded = 1, row_open_calls = [(''q2'', ''openai'')] \<rparr>))
   \<and> observes_terminal (Resolved (get_run_status
         \<lparr> row_status = Completed, row_total_queries = 2, row_completed_queries = 2,
           row_succeeded = 1, row_open_calls = [] \<rparr>))
   \<and> interval_ticks example_generator_state
        [Resolved (get_run_status \<lparr> row_status = Running, row_total_queries = 2,
            row_completed_queries = 1, row_succeeded = 1,
            row_open_calls = [(''q2'', ''openai'')] \<rparr>),
         Thrown,
         Resolved (get_run_status \<lparr> row_status = Completed, row_total_queries = 2,
            row_completed_queries = 2, row_succeeded = 1, row_open_calls = [] \<rparr>),
         Resolved (get_run_status \<lparr> row_status = Completed, row_total_queries = 2,
            row_completed_queries = 2, row_succeeded = 1, row_open_calls = [] \<rparr>)]
      = \<lparr> running = False, activeRunId = None, progress = Finite 100,
          status_requests = [7, 7, 7], runs_reloads = 1 \<rparr>"
  using status_moves_forward_and_polling_stops
    [of "\<lparr> row_status = Completed, row_total_queries = 2, row_completed_queries = 2,
           row_succeeded = 1, row_open_calls = [] \<rparr>"
        "Call_outcome (''q1'', ''openai'') True" "[Call_outcome (''q1'', ''openai'') True]"
        example_generator_state 7
        "Resolved (get_run_status \<lparr> row_status = Completed, row_total_queries = 2,
            row_completed_queries = 2, row_succeeded = 1, row_open_calls = [] \<rparr>)" "[]"]
  by (simp add: example_generator_state_def polling_def observes_terminal_def
      get_run_status_def interval_ticks_def interval_tick_def poll_progress_def
      js_divide_def)

section \<open>Properties of the analysis requests\<close>

lemma digit_char_cases:
  "digit_char d \<in> set ''0123456789''"
proof -
  have "d mod 10 < length ''0123456789''" by simp
  then show ?thesis unfolding digit_char_def by (rule nth_mem)
qed

lemma digit_char_not_delimiter:
  "digit_char d \<noteq> CHR ''?''" "digit_char d \<noteq> CHR ''&''"
  using digit_char_cases [of d] by auto

lemma string_of_nat_no_delimiter:
  "CHR ''?'' \<notin> set (string_of_nat n) \<and> CHR ''&'' \<notin> set (string_of_nat n)"
proof (induction n rule: string_of_nat.induct)
  case (1 n)
  show ?case
  proof (cases "n < 10")
    case True
    then show ?thesis using digit_char_not_delimiter [of n] by (subst string_of_nat.simps, subst (2) string_of_nat.simps) auto
  next
    case False
    with 1 show ?thesis
      using digit_char_not_delimiter [of n] by (subst string_of_nat.simps, subst (2) string_of_nat.simps) auto
  qed
qed

lemma js_string_of_int_no_delimiter:
  "CHR ''?'' \<notin> set (js_string_of_int i)" "CHR ''&'' \<notin> set (js_string_of_int i)"
  using string_of_nat_no_delimiter by (auto simp: js_string_of_int_def)

lemma split_on_no_sep: "sep \<notin> set xs \<Longrightarrow> split_on sep xs = [xs]"
  by (induction xs) auto

lemma split_on_append_sep:
  "sep \<notin> set xs \<Longrightarrow> split_on sep (xs @ sep # ys) = xs # split_on sep ys"
  by (induction xs) auto

lemma dropWhile_question:
  "CHR ''?'' \<notin> set xs \<Longrightarrow> dropWhile (\<lambda>c. c \<noteq> CHR ''?'') (xs @ CHR ''?'' # ys) = CHR ''?'' # ys"
  by (induction xs) auto

lemma dropWhile_no_question:
  "CHR ''?'' \<notin> set xs \<Longrightarrow> dropWhile (\<lambda>c. c \<noteq> CHR ''?'') xs = []"
  by (induction xs) auto

lemma branded_values_path:
  "CHR ''?'' \<notin> set path \<Longrightarrow> branded_values path = []"
  by (simp add: branded_values_def url_parameters_def dropWhile_no_question)

lemma branded_values_add_question:
  assumes "CHR ''?'' \<notin> set path"
  shows "branded_values (add_branded path ''?'' (branded_of_filter f)) = expected_branded f"
proof (cases f)
  case Filter_all_queries
  then show ?thesis using assms
    by (simp add: add_branded_def branded_of_filter_def branded_values_path)
next
  case Filter_branded
  then show ?thesis using dropWhile_question [OF assms, of "''branded=true''"]
    by (simp add: add_branded_def branded_of_filter_def branded_values_def url_parameters_def
        js_string_of_bool_def)
next
  case Filter_non_branded
  then show ?thesis using dropWhile_question [OF assms, of "''branded=false''"]
    by (simp add: add_branded_def branded_of_filter_def branded_values_def url_parameters_def
        js_string_of_bool_def)
qed

lemma run_path_no_question:
  "CHR ''?'' \<notin> set (''/analysis/runs/'' @ js_string_of_int runId @ suffix)
     = (CHR ''?'' \<notin> set suffix)"
  by (simp add: js_string_of_int_no_delimiter)

lemma branded_values_time_series:
  "branded_values (getTimeSeriesData days (branded_of_filter f)) = expected_branded f"
proof -
  let ?ds = "js_string_of_int days"
  have days_only: "split_on (CHR ''&'') (''days='' @ ?ds) = [''days='' @ ?ds]"
    by (rule split_on_no_sep) (simp add: js_string_of_int_no_delimiter)
  have with_branded: "split_on (CHR ''&'') ((''days='' @ ?ds) @ CHR ''&'' # v)
      = (''days='' @ ?ds) # split_on (CHR ''&'') v" for v
    by (rule split_on_append_sep) (simp add: js_string_of_int_no_delimiter)
  show ?thesis
  proof (cases f)
    case Filter_all_queries
    then show ?thesis using days_only
      by (simp add: getTimeSeriesData_def add_branded_def branded_of_filter_def
          branded_values_def url_parameters_def)
  next
    case Filter_branded
    then show ?thesis using with_branded [of "''branded=true''"]
      by (simp add: getTimeSeriesData_def add_branded_def branded_of_filter_def
          branded_values_def url_parameters_def js_string_of_bool_def)
  next
    case Filter_non_branded
    then show ?thesis using with_branded [of "''branded=false''"]
      by (simp add: getTimeSeriesData_def add_branded_def branded_of_filter_def
          branded_values_def url_parameters_def js_string_of_bool_def)
  qed
qed

lemma branded_values_summary:
  "branded_values (getRunAnalysisSummary runId (branded_of_filter f)) = expected_branded f"
  unfolding getRunAnalysisSummary_def
  by (rule branded_values_add_question) (simp add: js_string_of_int_no_delimiter)

lemma branded_values_gaps:
  "branded_values (getGapAnalysis runId (branded_of_filter f)) = expected_branded f"
  unfolding getGapAnalysis_def
  by (rule branded_values_add_question) (simp add: js_string_of_int_no_delimiter)

lemma branded_values_competitors:
  "branded_values (getCompetitorAnalysis runId (branded_of_filter f)) = expected_branded f"
  unfolding getCompetitorAnalysis_def
  by (rule branded_values_add_question) (simp add: js_string_of_int_no_delimiter)

lemma branded_values_citations:
  "branded_values (getCitationAnalysis runId) = []"
  unfolding getCitationAnalysis_def
  by (rule branded_values_path) (simp add: js_string_of_int_no_delimiter)

lemma branded_values_mention_rates:
  "branded_values (getMentionRatesBySource (branded_of_filter f)) = expected_branded f"
  unfolding getMentionRatesBySource_def
  by (rule branded_values_add_question) simp

lemma branded_values_dashboard_stats:
  "branded_values (getDashboardStatsFiltered (branded_of_filter f)) = expected_branded f"
  unfolding getDashboardStatsFiltered_def
  by (rule branded_values_add_question) simp

text \<open>
  Claim C6. For every selection of the branded filter, the request of each page carries
  the parameter \<^verbatim>\<open>branded\<close> with the value \<^verbatim>\<open>true\<close> exactly for \<^verbatim>\<open>'branded'\<close>, with the
  value \<^verbatim>\<open>false\<close> exactly for \<^verbatim>\<open>'non_branded'\<close>, and carries no such parameter exactly for
  \<^verbatim>\<open>'all'\<close>; the mapping is the same for the summary, gaps, competitors, time-series,
  mention-rates-by-source and filtered dashboard-stats endpoints, and the
  citation-analysis request of the analysis page never carries the parameter.
\<close>

theorem branded_parameter_mapping:
  "map branded_values (analysis_loadAnalysis runId f) = [expected_branded f, [] ]
   \<and> map branded_values (gaps_loadAnalysis runId f) = [expected_branded f]
   \<and> map branded_values (competitors_loadAnalysis runId f) = [expected_branded f]
   \<and> map branded_values (trends_loadData days f) = [expected_branded f]
   \<and> map branded_values (dashboard_loadFilteredData f)
       = [expected_branded f, expected_branded f]
   \<and> (expected_branded f = [''true'']) = (f = Filter_branded)
   \<and> (expected_branded f = [''false'']) = (f = Filter_non_branded)
   \<and> (expected_branded f = []) = (f = Filter_all_queries)"
proof -
  have "(expected_branded f = [''true'']) = (f = Filter_branded)"
    and "(expected_branded f = [''false'']) = (f = Filter_non_branded)"
    and "(expected_branded f = []) = (f = Filter_all_queries)"
    by (cases f; simp)+
  then show ?thesis
    by (simp add: analysis_loadAnalysis_def gaps_loadAnalysis_def competitors_loadAnalysis_def
        trends_loadData_def dashboard_loadFilteredData_def Let_def branded_values_summary
        branded_values_gaps branded_values_competitors branded_values_citations
        branded_values_time_series branded_values_mention_rates
        branded_values_dashboard_stats)
qed

theorem branded_parameter_mapping_witness:
  "analysis_loadAnalysis 12 Filter_branded
     = [''/analysis/runs/12/summary?branded=true'', ''/analysis/runs/12/citations'']
   \<and> map branded_values (analysis_loadAnalysis 12 Filter_branded) = [ [''true''], [] ]
   \<and> trends_loadData 30 Filter_non_branded = [''/analysis/time-series?days=30&branded=false'']
   \<and> gaps_loadAnalysis 12 Filter_all_queries = [''/analysis/runs/12/gaps'']
   \<and> dashboard_loadFilteredData Filter_non_branded
     = [''/analysis/mention-rates-by-source?branded=false'',
        ''/analysis/dashboard-stats-filtered?branded=false'']"
  using branded_parameter_mapping [of 12 Filter_branded 30]
  by (simp add: analysis_loadAnalysis_def trends_loadData_def gaps_loadAnalysis_def
      dashboard_loadFilteredData_def getRunAnalysisSummary_def getCitationAnalysis_def
      getTimeSeriesData_def getGapAnalysis_def getMentionRatesBySource_def
      getDashboardStatsFiltered_def add_branded_def branded_of_filter_def
      js_string_of_int_def js_string_of_bool_def digit_char_def)

section \<open>Properties of the custom queries\<close>

lemma split_on_nonempty: "split_on sep s \<noteq> []"
  by (induction s) (auto split: list.splits)

lemma split_on_join: "js_join sep (split_on sep s) = s"
proof (induction s)
  case Nil
  show ?case by simp
next
  case (Cons c s)
  obtain p ps where ps: "split_on sep s = p # ps"
    using split_on_nonempty [of sep s] by (cases "split_on sep s") auto
  with Cons show ?case by (cases ps) auto
qed

lemma split_on_pieces_no_sep: "p \<in> set (split_on sep s) \<Longrightarrow> sep \<notin> set p"
  by (induction s arbitrary: p) (auto split: if_splits list.splits)

lemma split_on_pieces_subset: "p \<in> set (split_on sep s) \<Longrightarrow> set p \<subseteq> set s"
proof (induction s arbitrary: p)
  case Nil
  then show ?case by simp
next
  case (Cons c s)
  obtain q qs where qs: "split_on sep s = q # qs"
    using split_on_nonempty [of sep s] by (cases "split_on sep s") auto
  have q: "set q \<subseteq> set s" using Cons.IH [of q] qs by simp
  have rest: "set r \<subseteq> set s" if "r \<in> set qs" for r
    using Cons.IH [of r] qs that by simp
  show ?case
  proof (cases "c = sep")
    case True
    with Cons.prems qs q rest show ?thesis by auto
  next
    case False
    with Cons.prems qs q rest show ?thesis by auto
  qed
qed

lemma split_on_covers:
  "c \<in> set s \<Longrightarrow> c \<noteq> sep \<Longrightarrow> \<exists>p \<in> set (split_on sep s). c \<in> set p"
proof (induction s)
  case Nil
  then show ?case by simp
next
  case (Cons d s)
  obtain p ps where ps: "split_on sep s = p # ps"
    using split_on_nonempty [of sep s] by (cases "split_on sep s") auto
  show ?case
  proof (cases "c = d")
    case True
    with Cons.prems ps show ?thesis by auto
  next
    case False
    with Cons obtain q where "q \<in> set (split_on sep s)" and "c \<in> set q" by auto
    with ps show ?thesis by (cases "d = sep") auto
  qed
qed

lemma js_trim_empty_iff: "js_trim s = [] \<longleftrightarrow> (\<forall>c \<in> set s. js_whitespace c)"
proof
  assume "js_trim s = []"
  then have blank: "\<forall>c \<in> set (dropWhile js_whitespace s). js_whitespace c"
    by (simp add: js_trim_def dropWhile_eq_Nil_conv)
  have "dropWhile js_whitespace s = []"
  proof (cases "dropWhile js_whitespace s")
    case Nil
    then show ?thesis .
  next
    case (Cons x xs)
    then have "\<not> js_whitespace x" using hd_dropWhile [of js_whitespace s] by simp
    moreover have "js_whitespace x" using blank Cons by simp
    ultimately show ?thesis by simp
  qed
  then show "\<forall>c \<in> set s. js_whitespace c" by (simp add: dropWhile_eq_Nil_conv)
next
  assume "\<forall>c \<in> set s. js_whitespace c"
  then have "dropWhile js_whitespace s = []" by (simp only: dropWhile_eq_Nil_conv)
  then show "js_trim s = []" by (simp add: js_trim_def del: dropWhile_eq_Nil_conv)
qed

lemma js_trim_ends:
  assumes "js_trim s \<noteq> []"
  shows "\<not> js_whitespace (hd (js_trim s))" and "\<not> js_whitespace (last (js_trim s))"
proof -
  let ?d = "dropWhile js_whitespace s"
  let ?e = "dropWhile js_whitespace (rev ?d)"
  from assms have e: "?e \<noteq> []" by (simp add: js_trim_def)
  then have "\<not> js_whitespace (hd ?e)" by (rule hd_dropWhile)
  then show "\<not> js_whitespace (last (js_trim s))"
    using e by (simp add: js_trim_def last_rev)
  have d: "?d \<noteq> []"
  proof
    assume "?d = []"
    then have "?e = []" by (simp del: dropWhile_eq_Nil_conv)
    with e show False by simp
  qed
  then have hd_d: "\<not> js_whitespace (hd ?d)" by (rule hd_dropWhile)
  have "\<not> js_whitespace (last (rev ?d))" using d hd_d by (simp add: last_rev)
  have "hd (rev ?e) = last ?e" using e by (simp add: hd_rev)
  also have "last ?e = last (rev ?d)"
    using e by (metis last_appendR takeWhile_dropWhile_id)
  also have "\<dots> = hd ?d" using d by (simp add: last_rev)
  finally show "\<not> js_whitespace (hd (js_trim s))"
    using hd_d by (simp add: js_trim_def)
qed

lemma js_whitespace_newline: "js_whitespace newline"
  by (simp add: js_whitespace_def newline_def)

lemma custom_queries_list_spec: "custom_queries_list content = trimmed_nonempty_lines content"
proof -
  have "filter (\<lambda>q. length q > 0) (map js_trim ls)
      = concat (map (\<lambda>line. if js_trim line = [] then [] else [js_trim line]) ls)" for ls
    by (induction ls) auto
  then show ?thesis by (simp add: custom_queries_list_def trimmed_nonempty_lines_def)
qed

lemma custom_queries_list_empty_iff: "custom_queries_list content = [] \<longleftrightarrow> js_trim content = []"
proof
  assume empty: "custom_queries_list content = []"
  show "js_trim content = []"
  proof (rule ccontr)
    assume "js_trim content \<noteq> []"
    then obtain c where c: "c \<in> set content" "\<not> js_whitespace c"
      by (auto simp: js_trim_empty_iff)
    then have "c \<noteq> newline" using js_whitespace_newline by auto
    with c obtain p where p: "p \<in> set (split_on newline content)" "c \<in> set p"
      using split_on_covers by fastforce
    with c have "js_trim p \<noteq> []" by (auto simp: js_trim_empty_iff)
    with p have "js_trim p \<in> set (custom_queries_list content)"
      by (auto simp: custom_queries_list_def)
    with empty show False by simp
  qed
next
  assume "js_trim content = []"
  then have blank: "\<forall>c \<in> set content. js_whitespace c" by (simp add: js_trim_empty_iff)
  have "js_trim p = []" if "p \<in> set (split_on newline content)" for p
    using that blank split_on_pieces_subset [of p newline content]
    by (auto simp: js_trim_empty_iff)
  then show "custom_queries_list content = []"
    by (auto simp: custom_queries_list_def filter_empty_conv)
qed

lemma js_trim_decomposition:
  "s = takeWhile js_whitespace s @ js_trim s
         @ rev (takeWhile js_whitespace (rev (dropWhile js_whitespace s)))"
proof -
  let ?d = "dropWhile js_whitespace s"
  have "?d = rev (dropWhile js_whitespace (rev ?d)) @ rev (takeWhile js_whitespace (rev ?d))"
    by (metis rev_append rev_rev_ident takeWhile_dropWhile_id)
  then have "?d = js_trim s @ rev (takeWhile js_whitespace (rev ?d))"
    by (simp add: js_trim_def)
  moreover have "s = takeWhile js_whitespace s @ ?d" by simp
  ultimately show ?thesis by metis
qed

lemma trimmed_nonempty_lines_ends:
  assumes "q \<in> set (trimmed_nonempty_lines content)"
  shows "q \<noteq> [] \<and> \<not> js_whitespace (hd q) \<and> \<not> js_whitespace (last q)"
proof -
  from assms obtain line where "q = js_trim line" and "js_trim line \<noteq> []"
    by (auto simp: trimmed_nonempty_lines_def split: if_splits)
  then show ?thesis using js_trim_ends [of line] by simp
qed

lemma handleRunCustom_request:
  "handleRunCustom (Some c) content now =
     (if trimmed_nonempty_lines content = [] then None
      else Some \<lparr> create_name = Some (''Custom Run - '' @ now),
                  create_description = None,
                  create_queries = trimmed_nonempty_lines content,
                  create_run_type = Some ''custom'',
                  create_openai_model = Some (default_openai_model c),
                  create_gemini_model = Some (default_gemini_model c),
                  create_perplexity_model = Some (default_perplexity_model c) \<rparr>)"
proof (cases "js_trim content = []")
  case True
  then have "custom_queries_list content = []" by (simp add: custom_queries_list_empty_iff)
  with True show ?thesis
    by (simp add: handleRunCustom_def custom_queries_list_spec [symmetric])
next
  case False
  then have "custom_queries_list content \<noteq> []" by (simp add: custom_queries_list_empty_iff)
  with False show ?thesis
    by (simp add: handleRunCustom_def custom_queries_list_spec [symmetric] Let_def)
qed

lemma handleRunCustom_Some:
  assumes "handleRunCustom client content now = Some request"
  shows "create_queries request = trimmed_nonempty_lines content"
    and "create_queries request \<noteq> []"
proof -
  from assms obtain c where c: "client = Some c"
    by (cases client) (simp_all add: handleRunCustom_def)
  with assms have req: "handleRunCustom (Some c) content now = Some request" by simp
  then have ne: "trimmed_nonempty_lines content \<noteq> []"
    by (auto simp: handleRunCustom_request split: if_splits)
  with req show "create_queries request = trimmed_nonempty_lines content"
    by (auto simp: handleRunCustom_request)
  with ne show "create_queries request \<noteq> []" by simp
qed

text \<open>
  Claim C7. For every content of the textarea (and a loaded client), the request that
  the generator page sends has as its queries exactly the lines of the text, each
  trimmed, the empty ones left out, in their order; when there is no such line the page
  sends no request, so every request carries a non-empty list of queries. The lines are
  the pieces of the text between its line feeds; trimming a line removes white space at
  its two ends and nothing else, and every query sent is non-empty and begins and ends
  with a character that is not white space.
\<close>

theorem handleRunCustom_submits_trimmed_lines:
  "handleRunCustom (Some c) content now =
     (if trimmed_nonempty_lines content = [] then None
      else Some \<lparr> create_name = Some (''Custom Run - '' @ now),
                  create_description = None,
                  create_queries = trimmed_nonempty_lines content,
                  create_run_type = Some ''custom'',
                  create_openai_model = Some (default_openai_model c),
                  create_gemini_model = Some (default_gemini_model c),
                  create_perplexity_model = Some (default_perplexity_model c) \<rparr>)
   \<and> handleRunCustom None content now = None
   \<and> (handleRunCustom client content now = Some request
        \<longrightarrow> create_queries request = trimmed_nonempty_lines content
            \<and> create_queries request \<noteq> [])
   \<and> js_join newline (split_on newline content) = content
   \<and> (\<forall>line \<in> set (split_on newline content). newline \<notin> set line)
   \<and> line = takeWhile js_whitespace line @ js_trim line
         @ rev (takeWhile js_whitespace (rev (dropWhile js_whitespace line)))
   \<and> (\<forall>q \<in> set (trimmed_nonempty_lines content).
         q \<noteq> [] \<and> \<not> js_whitespace (hd q) \<and> \<not> js_whitespace (last q))"
proof -
  have sent: "handleRunCustom client content now = Some request
        \<longrightarrow> create_queries request = trimmed_nonempty_lines content
            \<and> create_queries request \<noteq> []"
    using handleRunCustom_Some [of client content now request] by blast
  have none: "handleRunCustom None content now = None"
    by (simp add: handleRunCustom_def)
  have pieces: "\<forall>line \<in> set (split_on newline content). newline \<notin> set line"
    by (auto dest: split_on_pieces_no_sep)
  have ends: "\<forall>q \<in> set (trimmed_nonempty_lines content).
         q \<noteq> [] \<and> \<not> js_whitespace (hd q) \<and> \<not> js_whitespace (last q)"
    by (auto dest: trimmed_nonempty_lines_ends)
  from handleRunCustom_request [of c content now] none sent
    split_on_join [of newline content] pieces js_trim_decomposition [of line] ends
  show ?thesis by blast
qed

theorem handleRunCustom_submits_trimmed_lines_witness:
  "trimmed_nonempty_lines [32, 97, 10, 10, 9, 98, 32, 99, 160, 10] = [ [97], [98, 32, 99] ]
   \<and> handleRunCustom (Some example_client) [32, 97, 10, 10, 9, 98, 32, 99, 160, 10]
        ''1/1/2025, 10:00:00 AM''
      = Some \<lparr> create_name = Some ''Custom Run - 1/1/2025, 10:00:00 AM'',
               create_description = None,
               create_queries = [ [97], [98, 32, 99] ],
               create_run_type = Some ''custom'',
               create_openai_model = Some ''gpt-4o'',
               create_gemini_model = Some ''gemini-pro'',
               create_perplexity_model = Some ''sonar'' \<rparr>
   \<and> handleRunCustom (Some example_client) [32, 10, 9, 10, 12288] ''now'' = None"
proof -
  have lines: "trimmed_nonempty_lines [32, 97, 10, 10, 9, 98, 32, 99, 160, 10]
      = [ [97], [98, 32, 99] ]"
    by (simp add: trimmed_nonempty_lines_def newline_def js_trim_def js_whitespace_def)
  have blank: "trimmed_nonempty_lines [32, 10, 9, 10, 12288] = []"
    by (simp add: trimmed_nonempty_lines_def newline_def js_trim_def js_whitespace_def)
  show ?thesis
    using handleRunCustom_submits_trimmed_lines
        [of example_client "[32, 97, 10, 10, 9, 98, 32, 99, 160, 10]"
          "''1/1/2025, 10:00:00 AM''"]
      handleRunCustom_submits_trimmed_lines [of example_client "[32, 10, 9, 10, 12288]" "''now''"]
    by (simp add: lines blank example_client_def)
qed

section \<open>Properties of fetchWithAuth\<close>

lemma request_headers_authorization:
  assumes "init_headers options ''Authorization'' = None"
  shows "request_headers b options ''Authorization''
     = (case getToken b of
          None \<Rightarrow> None
        | Some t \<Rightarrow> if t = [] then None else Some (''Bearer '' @ t))"
  using assms
  by (simp add: request_headers_def Let_def map_add_def split: option.splits)

text \<open>
  Claim C8. For every endpoint called through \<^verbatim>\<open>fetchWithAuth\<close> (the callers pass no
  \<^verbatim>\<open>Authorization\<close> header of their own), the header \<^verbatim>\<open>Authorization: Bearer\<close> with the
  token is attached exactly when a token is present in \<^verbatim>\<open>localStorage\<close> of the browser;
  a token is a non-empty string under the key \<^verbatim>\<open>token\<close>, as everywhere in the frontend,
  which tests the token for truthiness and takes the empty string for no token. If the
  server responds with status 401, the entries \<^verbatim>\<open>token\<close> and \<^verbatim>\<open>user\<close> are removed from
  \<^verbatim>\<open>localStorage\<close>, every other entry stays, and the browser is sent to \<^verbatim>\<open>/login\<close>; for
  every other status the response is returned unchanged and nothing else changes.
\<close>

theorem fetchWithAuth_contract:
  assumes "init_headers options ''Authorization'' = None"
  shows "request_headers b options ''Authorization''
       = (case getToken b of
            None \<Rightarrow> None
          | Some t \<Rightarrow> if t = [] then None else Some (''Bearer '' @ t))
    \<and> (request_headers b options ''Authorization'' \<noteq> None)
       = (has_window b \<and> (\<exists>t. localStorage b ''token'' = Some t \<and> t \<noteq> []))
    \<and> (fetch (API_BASE @ endpoint) (options\<lparr> init_headers := request_headers b options \<rparr>)
          = Some response \<and> response_status response = 401 \<and> has_window b
        \<longrightarrow> (\<exists>b'. fetchWithAuth API_BASE fetch b endpoint options = Inr (b', response)
               \<and> localStorage b' ''token'' = None
               \<and> localStorage b' ''user'' = None
               \<and> (\<forall>k. k \<noteq> ''token'' \<and> k \<noteq> ''user'' \<longrightarrow> localStorage b' k = localStorage b k)
               \<and> location_href b' = ''/login''))
    \<and> (fetch (API_BASE @ endpoint) (options\<lparr> init_headers := request_headers b options \<rparr>)
          = Some response \<and> response_status response \<noteq> 401
        \<longrightarrow> fetchWithAuth API_BASE fetch b endpoint options = Inr (b, response))"
proof -
  have attached: "(request_headers b options ''Authorization'' \<noteq> None)
       = (has_window b \<and> (\<exists>t. localStorage b ''token'' = Some t \<and> t \<noteq> []))"
    using assms
    by (auto simp: request_headers_def Let_def map_add_def getToken_def split: option.splits)
  have unauthorized:
    "fetch (API_BASE @ endpoint) (options\<lparr> init_headers := request_headers b options \<rparr>)
          = Some response \<and> response_status response = 401 \<and> has_window b
        \<longrightarrow> (\<exists>b'. fetchWithAuth API_BASE fetch b endpoint options = Inr (b', response)
               \<and> localStorage b' ''token'' = None
               \<and> localStorage b' ''user'' = None
               \<and> (\<forall>k. k \<noteq> ''token'' \<and> k \<noteq> ''user'' \<longrightarrow> localStorage b' k = localStorage b k)
               \<and> location_href b' = ''/login'')"
    by (simp add: fetchWithAuth_def)
  have other:
    "fetch (API_BASE @ endpoint) (options\<lparr> init_headers := request_headers b options \<rparr>)
          = Some response \<and> response_status response \<noteq> 401
        \<longrightarrow> fetchWithAuth API_BASE fetch b endpoint options = Inr (b, response)"
    by (simp add: fetchWithAuth_def)
  from request_headers_authorization [OF assms, of b] attached unauthorized other
  show ?thesis by blast
qed

theorem fetchWithAuth_contract_witness:
  "init_headers no_options ''Authorization'' = None
   \<and> request_headers (browser_with_token ''abc'') no_options ''Authorization''
       = Some ''Bearer abc''
   \<and> fetchWithAuth ''/api'' (answer_with 401) (browser_with_token ''abc'') ''/auth/me'' no_options
       = Inr ((browser_with_token ''abc'')
                \<lparr> localStorage := (localStorage (browser_with_token ''abc''))
                                     (''token'' := None, ''user'' := None),
                  location_href := ''/login'' \<rparr>,
              \<lparr> response_status = 401, response_body = ''{}'' \<rparr>)
   \<and> fetchWithAuth ''/api'' (answer_with 200) (browser_with_token ''abc'') ''/auth/me'' no_options
       = Inr (browser_with_token ''abc'', \<lparr> response_status = 200, response_body = ''{}'' \<rparr>)"
  using fetchWithAuth_contract [of no_options "browser_with_token ''abc''" "answer_with 401"
      "''/api''" "''/auth/me''" "\<lparr> response_status = 401, response_body = ''{}'' \<rparr>"]
  by (simp add: no_options_def browser_with_token_def answer_with_def fetchWithAuth_def
      getToken_def)

section \<open>Properties of the selected run\<close>













end
